theory Spec2Isabelle
  imports Main "HOL-Library.Char_ord" "HOL-Library.List_Lexorder"
begin

section \<open>database.py: the tables of SeriesDatabase\<close>

text \<open>
  The store is an SQLite file. Of the tables that \<open>_ensure_schema\<close> creates, the methods
  of \<open>SeriesDatabase\<close> read and write two: \<open>series\<close> and \<open>git_builds\<close>. A table is the list
  of its rows in insertion order (the schema declares no key and no uniqueness constraint,
  so equal rows may repeat). A column that \<open>add_series\<close> leaves out of its INSERT is NULL
  in the new row, hence \<open>string option\<close>; every other column holds what the INSERT binds.
\<close>

record series_row =
  series_id :: int
  series_project :: string
  series_url :: string
  series_submitter :: string
  series_email :: string
  series_submitted :: int
  series_completed :: int
  series_instance :: string
  series_downloaded :: int
  series_branch :: "string option"
  series_repo :: "string option"
  series_sha :: "string option"

text \<open>
  The columns of \<open>git_builds\<close>. Its first column is called \<open>series_id\<close> in the schema; the
  field is \<open>gb_series_id\<close> here because \<open>series_id\<close> already names the column of \<open>series\<close>.
\<close>

record build_row =
  gb_series_id :: int
  patch_id :: int
  patch_url :: string
  patch_name :: string
  sha :: string
  patchwork_instance :: string
  patchwork_project :: string
  repo_name :: string
  gap_sync :: int
  obs_sync :: int
  cirrus_sync :: int

record db =
  series :: "series_row list"
  git_builds :: "build_row list"

datatype py_error =
  RequestException | KeyError | IndexError | TypeError | AttributeError | OperationalError

subsection \<open>Series operations\<close>

definition series_exists :: "db \<Rightarrow> string \<Rightarrow> int \<Rightarrow> bool" where
  "series_exists d instance sid =
     (filter (\<lambda>r. series_id r = sid \<and> series_instance r = instance) (series d) \<noteq> [])"

definition add_series ::
  "db \<Rightarrow> string \<Rightarrow> string \<Rightarrow> int \<Rightarrow> string \<Rightarrow> string \<Rightarrow> string \<Rightarrow> bool \<Rightarrow> db" where
  "add_series d instance project sid url submitter_name submitter_email completed =
     d\<lparr>series := series d @
        [\<lparr>series_id = sid, series_project = project, series_url = url,
          series_submitter = submitter_name, series_email = submitter_email,
          series_submitted = 0, series_completed = (if completed then 1 else 0),
          series_instance = instance, series_downloaded = 0,
          series_branch = None, series_repo = None, series_sha = None\<rparr>]\<rparr>"

definition get_unsubmitted_series ::
  "db \<Rightarrow> string \<Rightarrow> string \<Rightarrow> (int \<times> string \<times> string \<times> string) list" where
  "get_unsubmitted_series d instance project =
     map (\<lambda>r. (series_id r, series_url r, series_submitter r, series_email r))
       (filter (\<lambda>r. series_instance r = instance \<and> series_project r = project
                    \<and> series_completed r = 1 \<and> series_submitted r = 0) (series d))"

definition get_uncompleted_series ::
  "db \<Rightarrow> string \<Rightarrow> string \<Rightarrow> (int \<times> string \<times> string \<times> string) list" where
  "get_uncompleted_series d instance project =
     map (\<lambda>r. (series_id r, series_url r, series_submitter r, series_email r))
       (filter (\<lambda>r. series_instance r = instance \<and> series_project r = project
                    \<and> series_completed r = 0 \<and> series_submitted r = 0
                    \<and> series_downloaded r = 0) (series d))"

definition set_series_submitted :: "db \<Rightarrow> string \<Rightarrow> int \<Rightarrow> db" where
  "set_series_submitted d instance sid =
     d\<lparr>series := map (\<lambda>r. if series_id r = sid \<and> series_instance r = instance
                           then r\<lparr>series_submitted := 1\<rparr> else r) (series d)\<rparr>"

definition set_series_completed :: "db \<Rightarrow> string \<Rightarrow> int \<Rightarrow> db" where
  "set_series_completed d instance sid =
     d\<lparr>series := map (\<lambda>r. if series_id r = sid \<and> series_instance r = instance
                           then r\<lparr>series_completed := 1\<rparr> else r) (series d)\<rparr>"

text \<open>
  \<open>get_active_branches\<close> selects on \<open>series_branch IS NOT NULL AND series_branch != ''\<close>, so
  the branch of a returned row is a string; \<open>series_repo\<close> is returned as stored.
\<close>

definition active_branch :: "string \<Rightarrow> series_row \<Rightarrow> bool" where
  "active_branch instance r =
     (series_instance r = instance \<and> series_branch r \<noteq> None \<and> series_branch r \<noteq> Some [])"

definition get_active_branches ::
  "db \<Rightarrow> string \<Rightarrow> (int \<times> string \<times> string \<times> string \<times> string option) list" where
  "get_active_branches d instance =
     map (\<lambda>r. (series_id r, series_project r, series_url r,
                (case series_branch r of Some b \<Rightarrow> b | None \<Rightarrow> []), series_repo r))
       (filter (active_branch instance) (series d))"

definition set_series_branch :: "db \<Rightarrow> string \<Rightarrow> int \<Rightarrow> string \<Rightarrow> string \<Rightarrow> db" where
  "set_series_branch d instance sid repo branch =
     d\<lparr>series := map (\<lambda>r. if series_id r = sid \<and> series_instance r = instance
                           then r\<lparr>series_branch := Some branch, series_repo := Some repo\<rparr>
                           else r) (series d)\<rparr>"

definition clear_series_branch :: "db \<Rightarrow> string \<Rightarrow> int \<Rightarrow> db" where
  "clear_series_branch d instance sid =
     d\<lparr>series := map (\<lambda>r. if series_id r = sid \<and> series_instance r = instance
                           then r\<lparr>series_branch := Some []\<rparr> else r) (series d)\<rparr>"

subsection \<open>Build operations\<close>

text \<open>
  \<open>get_unsynced_builds\<close> and \<open>set_build_synced\<close> splice their \<open>ci_type\<close> argument into the
  SQL text as a column name. The callers pass a provider's \<open>sync_column\<close>, that is
  \<open>name + "_sync"\<close>. The schema has three such columns. A name that is no column of
  \<open>git_builds\<close> makes SQLite refuse the statement (\<open>sqlite3.OperationalError\<close>, no such
  column), and nothing is written. The model resolves the sync columns and treats every
  other name as unknown.
\<close>

definition sync_columns :: "string list" where
  "sync_columns = [''gap_sync'', ''obs_sync'', ''cirrus_sync'']"

definition sync_flag :: "string \<Rightarrow> build_row \<Rightarrow> int" where
  "sync_flag ci_type r =
     (if ci_type = ''gap_sync'' then gap_sync r
      else if ci_type = ''obs_sync'' then obs_sync r
      else cirrus_sync r)"

definition set_sync_flag :: "string \<Rightarrow> build_row \<Rightarrow> build_row" where
  "set_sync_flag ci_type r =
     (if ci_type = ''gap_sync'' then r\<lparr>gap_sync := 1\<rparr>
      else if ci_type = ''obs_sync'' then r\<lparr>obs_sync := 1\<rparr>
      else r\<lparr>cirrus_sync := 1\<rparr>)"

text \<open>
  \<open>ORDER BY series_id\<close>: the rows come back sorted by that column. \<open>sort_key\<close> is a
  stable sort, so rows of one series keep their insertion order.
\<close>

definition get_unsynced_builds :: "db \<Rightarrow> string \<Rightarrow> string \<Rightarrow> py_error + build_row list" where
  "get_unsynced_builds d instance ci_type =
     (if ci_type \<in> set sync_columns
      then Inr (sort_key gb_series_id
             (filter (\<lambda>r. patchwork_instance r = instance \<and> sync_flag ci_type r = 0)
                (git_builds d)))
      else Inl OperationalError)"

definition set_build_synced :: "db \<Rightarrow> string \<Rightarrow> int \<Rightarrow> string \<Rightarrow> py_error + db" where
  "set_build_synced d instance pid ci_type =
     (if ci_type \<in> set sync_columns
      then Inr (d\<lparr>git_builds :=
             map (\<lambda>r. if patchwork_instance r = instance \<and> patch_id r = pid
                       then set_sync_flag ci_type r else r) (git_builds d)\<rparr>)
      else Inl OperationalError)"

definition insert_build ::
  "db \<Rightarrow> int \<Rightarrow> int \<Rightarrow> string \<Rightarrow> string \<Rightarrow> string \<Rightarrow> string \<Rightarrow> string \<Rightarrow> string \<Rightarrow> db" where
  "insert_build d sid pid purl pname shasum instance project repo =
     d\<lparr>git_builds := git_builds d @
        [\<lparr>gb_series_id = sid, patch_id = pid, patch_url = purl, patch_name = pname,
          sha = shasum, patchwork_instance = instance, patchwork_project = project,
          repo_name = repo, gap_sync = 0, obs_sync = 0, cirrus_sync = 0\<rparr>]\<rparr>"

definition get_patch_id_by_series_and_sha :: "db \<Rightarrow> int \<Rightarrow> string \<Rightarrow> string \<Rightarrow> int option" where
  "get_patch_id_by_series_and_sha d sid shasum instance =
     (case filter (\<lambda>r. patchwork_instance r = instance \<and> gb_series_id r = sid \<and> sha r = shasum)
             (git_builds d) of
        [] \<Rightarrow> None
      | r # _ \<Rightarrow> Some (patch_id r))"

section \<open>patchwork.py: recording a new series\<close>

text \<open>
  \<open>PatchworkMonitor.emit_series\<close>; \<open>self.instance\<close> and \<open>self.project\<close> are the first
  two arguments after the store.
\<close>

definition emit_series ::
  "db \<Rightarrow> string \<Rightarrow> string \<Rightarrow> int \<Rightarrow> string \<Rightarrow> string \<Rightarrow> string \<Rightarrow> bool \<Rightarrow> db" where
  "emit_series d instance project sid url submitter_name submitter_email all_received =
     (if \<not> series_exists d instance sid
      then add_series d instance project sid url submitter_name submitter_email all_received
      else d)"

text \<open>
  The series detail that \<open>client.get_series\<close> returns, as far as \<open>check_new_series\<close>
  reads it. \<open>None\<close> is a key that the reply lacks: \<open>series_data['url']\<close> then raises
  \<open>KeyError\<close>, while \<open>series_data.get('received_all', False)\<close> gives \<open>False\<close>.
\<close>

record series_data =
  sd_url :: "string option"
  sd_submitter_name :: "string option"
  sd_submitter_email :: "string option"
  sd_received_all :: "bool option"

text \<open>
  One turn of the loop of \<open>check_new_series\<close>, for an event whose
  \<open>event['payload']['series']['id']\<close> is \<open>sid\<close>. The result is the store and the
  exception that leaves the loop, if any: a \<open>RequestException\<close> of \<open>get_series\<close> is
  caught (the event is skipped), any other exception is not.
\<close>

definition check_new_series_event ::
  "(int \<Rightarrow> py_error + series_data) \<Rightarrow> string \<Rightarrow> string \<Rightarrow> db \<Rightarrow> int \<Rightarrow> db \<times> py_error option" where
  "check_new_series_event get_series instance project d sid =
     (case get_series sid of
        Inl e \<Rightarrow> (d, if e = RequestException then None else Some e)
      | Inr sd \<Rightarrow>
         (case sd_url sd of None \<Rightarrow> (d, Some KeyError) | Some url \<Rightarrow>
         (case sd_submitter_name sd of None \<Rightarrow> (d, Some KeyError) | Some name \<Rightarrow>
         (case sd_submitter_email sd of None \<Rightarrow> (d, Some KeyError) | Some email \<Rightarrow>
            (emit_series d instance project sid url name email
               (case sd_received_all sd of None \<Rightarrow> False | Some b \<Rightarrow> b), None)))))"

fun check_new_series ::
  "(int \<Rightarrow> py_error + series_data) \<Rightarrow> string \<Rightarrow> string \<Rightarrow> db \<Rightarrow> int list \<Rightarrow> db \<times> py_error option" where
  "check_new_series get_series instance project d [] = (d, None)"
| "check_new_series get_series instance project d (sid # events) =
     (case check_new_series_event get_series instance project d sid of
        (d', Some e) \<Rightarrow> (d', Some e)
      | (d', None) \<Rightarrow> check_new_series get_series instance project d' events)"

section \<open>The mutating interface of the store\<close>

text \<open>
  The seven methods of \<open>SeriesDatabase\<close> that write, as one type of calls, so that a
  property of every store operation is a property of \<open>apply_op\<close>. A call that SQLite
  refuses leaves the store as it was.
\<close>

datatype store_op =
    AddSeries string string int string string string bool
  | SetSeriesSubmitted string int
  | SetSeriesCompleted string int
  | SetSeriesBranch string int string string
  | ClearSeriesBranch string int
  | SetBuildSynced string int string
  | InsertBuild int int string string string string string string

fun apply_op :: "db \<Rightarrow> store_op \<Rightarrow> db" where
  "apply_op d (AddSeries instance project sid url name email completed) =
     add_series d instance project sid url name email completed"
| "apply_op d (SetSeriesSubmitted instance sid) = set_series_submitted d instance sid"
| "apply_op d (SetSeriesCompleted instance sid) = set_series_completed d instance sid"
| "apply_op d (SetSeriesBranch instance sid repo branch) =
     set_series_branch d instance sid repo branch"
| "apply_op d (ClearSeriesBranch instance sid) = clear_series_branch d instance sid"
| "apply_op d (SetBuildSynced instance pid ci_type) =
     (case set_build_synced d instance pid ci_type of Inl e \<Rightarrow> d | Inr d' \<Rightarrow> d')"
| "apply_op d (InsertBuild sid pid purl pname shasum instance project repo) =
     insert_build d sid pid purl pname shasum instance project repo"

fun apply_ops :: "db \<Rightarrow> store_op list \<Rightarrow> db" where
  "apply_ops d [] = d"
| "apply_ops d (op # ops) = apply_ops (apply_op d op) ops"

section \<open>ci_providers.py: what a provider yields\<close>

text \<open>
  The dictionary that every provider yields. \<open>repo_name\<close> is optional because the Travis
  provider passes the \<open>series_repo\<close> column on, which may be NULL; \<open>patch_id\<close> is \<open>None\<close>
  for the Travis provider.
\<close>

record outcome =
  o_pw_instance :: string
  o_series_id :: int
  o_sha :: string
  o_result :: string
  o_build_url :: string
  o_patch_name :: string
  o_repo_name :: "string option"
  o_test_name :: string
  o_patch_id :: "int option"

text \<open>
  \<open>get_build_results\<close> is a generator. A run of it, consumed to its end, is the list of
  the dictionaries it yielded, the store it leaves, and the exception that ended it, if
  one did (what it yielded before the exception has reached the consumer all the same).
\<close>

record run_result =
  yielded :: "outcome list"
  store :: db
  raised :: "py_error option"

text \<open>
  The \<open>for\<close> loop of a provider over its units of work. A turn of the loop yields some
  dictionaries, updates the loop's local variables \<open>'s\<close> and the store, and either goes on
  to the next unit or raises.
\<close>

type_synonym ('s, 'u) step = "'s \<Rightarrow> db \<Rightarrow> 'u \<Rightarrow> outcome list \<times> 's \<times> db \<times> py_error option"

fun for_each :: "('s, 'u) step \<Rightarrow> 's \<Rightarrow> db \<Rightarrow> 'u list \<Rightarrow> run_result" where
  "for_each step s d [] = \<lparr>yielded = [], store = d, raised = None\<rparr>"
| "for_each step s d (u # us) =
     (case step s d u of
        (outs, s', d', Some e) \<Rightarrow> \<lparr>yielded = outs, store = d', raised = Some e\<rparr>
      | (outs, s', d', None) \<Rightarrow>
          (let r = for_each step s' d' us in r\<lparr>yielded := outs @ yielded r\<rparr>))"

text \<open>\<open>CIProvider.__init__\<close>: \<open>self.sync_column = f"{name}_sync"\<close>.\<close>

definition sync_column :: "string \<Rightarrow> string" where
  "sync_column name = name @ ''_sync''"

text \<open>\<open>if pw_project and pw_project != project: continue\<close>.\<close>

definition project_filtered :: "string option \<Rightarrow> string \<Rightarrow> bool" where
  "project_filtered pw_project project =
     (case pw_project of None \<Rightarrow> False | Some p \<Rightarrow> p \<noteq> [] \<and> p \<noteq> project)"

text \<open>Python's \<open>str\<close> of an integer, for the f-strings that print one.\<close>

fun digits :: "nat \<Rightarrow> string" where
  "digits n =
     (if n < 10 then [''0123456789'' ! n]
      else digits (n div 10) @ [''0123456789'' ! (n mod 10)])"

definition str_int :: "int \<Rightarrow> string" where
  "str_int i = (if i < 0 then CHR ''-'' # digits (nat (- i)) else digits (nat i))"

definition str_opt :: "string option \<Rightarrow> string" where
  "str_opt x = (case x of None \<Rightarrow> ''None'' | Some s \<Rightarrow> s)"

text \<open>
  A value that a JSON object may hold under a key: the key is missing, the value is
  \<open>null\<close>, or it is a value of the expected shape.
\<close>

datatype 'a field = Missing | Null | Present 'a

section \<open>GitHubActionsProvider\<close>

text \<open>
  A workflow run of the reply, with the five keys the provider reads; \<open>None\<close> is a key
  that the run lacks (\<open>run['name']\<close> then raises \<open>KeyError\<close>). \<open>conclusion\<close> is \<open>null\<close>
  while a run is in progress, hence the second \<open>option\<close>.
\<close>

record gh_run =
  run_name :: "string option"
  run_started_at :: "string option"
  run_status :: "string option"
  run_conclusion :: "string option option"
  run_html_url :: "string option"

text \<open>
  The reply of \<open>GET {api_base}/repos/{repo_name}/actions/runs\<close> as \<open>response.json()\<close>
  gives it: the list under \<open>'workflow_runs'\<close>, or \<open>None\<close> when the object has no such key
  (the empty object included). The backend is a function from the URL and the \<open>branch\<close>
  parameter to that reply, or to the exception that the three lines of the \<open>try\<close> raise.
\<close>

type_synonym gh_json = "gh_run list option"

type_synonym gh_backend = "string \<Rightarrow> string \<Rightarrow> py_error + gh_json"

text \<open>The three variables that the loop keeps from one build to the next.\<close>

record gh_cache =
  prev_series :: "int option"
  all_runs :: "gh_json option"
  prev_url :: "string option"

text \<open>\<open>workflow_groups\<close>: a dictionary in insertion order, from a name to its runs.\<close>

fun add_to_group ::
  "string \<Rightarrow> gh_run \<Rightarrow> (string \<times> gh_run list) list \<Rightarrow> (string \<times> gh_run list) list" where
  "add_to_group n run [] = [(n, [run])]"
| "add_to_group n run ((k, rs) # groups) =
     (if k = n then (k, rs @ [run]) # groups else (k, rs) # add_to_group n run groups)"

fun group_runs ::
  "gh_run list \<Rightarrow> (string \<times> gh_run list) list \<Rightarrow> py_error + (string \<times> gh_run list) list" where
  "group_runs [] groups = Inr groups"
| "group_runs (run # runs) groups =
     (case run_name run of
        None \<Rightarrow> Inl KeyError
      | Some n \<Rightarrow> group_runs runs (add_to_group n run groups))"

text \<open>
  \<open>runs.sort(key=lambda x: x['run_started_at'], reverse=True)\<close>: the key is computed for
  every run (a missing key raises), then the sort is stable and descending: the runs are
  in descending order of their start, runs of equal start in the order they had.
\<close>

definition started_at :: "gh_run \<Rightarrow> string" where
  "started_at r = (case run_started_at r of None \<Rightarrow> [] | Some t \<Rightarrow> t)"

definition sort_runs :: "gh_run list \<Rightarrow> py_error + gh_run list" where
  "sort_runs runs =
     (if list_ex (\<lambda>r. run_started_at r = None) runs then Inl KeyError
      else Inr (rev (sort_key started_at (rev runs))))"

fun sort_groups ::
  "(string \<times> gh_run list) list \<Rightarrow> py_error + (string \<times> gh_run list) list" where
  "sort_groups [] = Inr []"
| "sort_groups ((n, runs) # groups) =
     (case sort_runs runs of
        Inl e \<Rightarrow> Inl e
      | Inr runs' \<Rightarrow>
          (case sort_groups groups of Inl e \<Rightarrow> Inl e | Inr groups' \<Rightarrow> Inr ((n, runs') # groups')))"

text \<open>
  The last loop of a turn, over the groups: what it yields for the build, and the
  exception that interrupts it, if any.
\<close>

fun gh_workflow_results ::
  "string \<Rightarrow> build_row \<Rightarrow> (string \<times> gh_run list) list \<Rightarrow> outcome list \<times> py_error option" where
  "gh_workflow_results pw_instance build [] = ([], None)"
| "gh_workflow_results pw_instance build ((workflow_name, runs) # groups) =
     (case runs of
        [] \<Rightarrow> ([], Some IndexError)
      | latest_run # _ \<Rightarrow>
     (case run_status latest_run of None \<Rightarrow> ([], Some KeyError) | Some status \<Rightarrow>
     (case run_conclusion latest_run of None \<Rightarrow> ([], Some KeyError) | Some conclusion \<Rightarrow>
     (case run_html_url latest_run of None \<Rightarrow> ([], Some KeyError) | Some build_url \<Rightarrow>
        if status \<noteq> ''completed'' then gh_workflow_results pw_instance build groups
        else
          (case gh_workflow_results pw_instance build groups of
             (outs, e) \<Rightarrow>
               (\<lparr>o_pw_instance = pw_instance, o_series_id = gb_series_id build,
                 o_sha = sha build,
                 o_result = (if conclusion = Some ''success'' then ''passed'' else ''failed''),
                 o_build_url = build_url, o_patch_name = patch_name build,
                 o_repo_name = Some (repo_name build), o_test_name = workflow_name,
                 o_patch_id = Some (patch_id build)\<rparr> # outs, e))))))"

text \<open>
  The part of a turn after the fetch, from \<open>if not all_runs or 'workflow_runs' not in
  all_runs\<close> to \<open>set_build_synced\<close>.
\<close>

definition gh_process ::
  "string \<Rightarrow> gh_cache \<Rightarrow> db \<Rightarrow> build_row \<Rightarrow> outcome list \<times> gh_cache \<times> db \<times> py_error option" where
  "gh_process pw_instance c d build =
     (case all_runs c of
        None \<Rightarrow> ([], c, d, None)
      | Some None \<Rightarrow> ([], c, d, None)
      | Some (Some workflow_runs) \<Rightarrow>
          if workflow_runs = [] then ([], c, d, None)
          else
            (case group_runs workflow_runs [] of Inl e \<Rightarrow> ([], c, d, Some e) | Inr groups \<Rightarrow>
            (case sort_groups groups of Inl e \<Rightarrow> ([], c, d, Some e) | Inr sorted_groups \<Rightarrow>
            (case gh_workflow_results pw_instance build sorted_groups of
               (outs, Some e) \<Rightarrow> (outs, c, d, Some e)
             | (outs, None) \<Rightarrow>
                 (case set_build_synced d pw_instance (patch_id build) (sync_column ''gap'') of
                    Inl e \<Rightarrow> (outs, c, d, Some e)
                  | Inr d' \<Rightarrow> (outs, c, d', None))))))"

definition gh_step :: "string \<Rightarrow> gh_backend \<Rightarrow> string \<Rightarrow> string option \<Rightarrow> (gh_cache, build_row) step" where
  "gh_step api_base backend pw_instance pw_project c d build =
     (if project_filtered pw_project (patchwork_project build) then ([], c, d, None)
      else if Some (gb_series_id build) \<noteq> prev_series c then
        (let c1 = c\<lparr>prev_series := Some (gb_series_id build)\<rparr>;
             api_url = api_base @ ''/repos/'' @ repo_name build @ ''/actions/runs''
         in if Some api_url \<noteq> prev_url c1 then
              (let c2 = c1\<lparr>prev_url := Some api_url\<rparr>
               in case backend api_url (''series_'' @ str_int (gb_series_id build)) of
                    Inl e \<Rightarrow> ([], c2, d, if e = RequestException then None else Some e)
                  | Inr j \<Rightarrow> gh_process pw_instance (c2\<lparr>all_runs := Some j\<rparr>) d build)
            else gh_process pw_instance c1 d build)
      else gh_process pw_instance c d build)"

definition github_get_build_results ::
  "string \<Rightarrow> gh_backend \<Rightarrow> db \<Rightarrow> string \<Rightarrow> string option \<Rightarrow> run_result" where
  "github_get_build_results api_base backend d pw_instance pw_project =
     (case get_unsynced_builds d pw_instance (sync_column ''gap'') of
        Inl e \<Rightarrow> \<lparr>yielded = [], store = d, raised = Some e\<rparr>
      | Inr unsynced_builds \<Rightarrow>
          for_each (gh_step api_base backend pw_instance pw_project)
            \<lparr>prev_series = None, all_runs = None, prev_url = None\<rparr> d unsynced_builds)"

section \<open>TravisProvider\<close>

text \<open>
  A build of the reply. \<open>tb_commit\<close> is what \<open>build.get('commit', {})\<close> finds: no key, or
  \<open>null\<close>, or an object, whose \<open>'sha'\<close> may be missing in turn.
\<close>

record travis_build =
  tb_state :: "string option"
  tb_id :: "int option"
  tb_commit :: "string option field"

text \<open>
  \<open>_get_builds_for_branch\<close>: the backend maps the URL and the \<open>branch.name\<close> parameter to
  the \<open>'builds'\<close> entry of the reply, or to the exception raised; \<open>data.get('builds', [])\<close>
  turns a missing entry into the empty list and passes \<open>null\<close> on, which the \<open>for\<close>
  statement of the caller cannot iterate.
\<close>

type_synonym travis_backend = "string \<Rightarrow> string \<Rightarrow> py_error + travis_build list field"

definition get_builds_for_branch ::
  "travis_backend \<Rightarrow> string option \<Rightarrow> string \<Rightarrow> py_error + travis_build list option" where
  "get_builds_for_branch backend repo branch =
     (case backend (''https://api.travis-ci.com/repos/'' @ str_opt repo @ ''/builds'') branch of
        Inl e \<Rightarrow> Inl e
      | Inr Missing \<Rightarrow> Inr (Some [])
      | Inr Null \<Rightarrow> Inr None
      | Inr (Present builds) \<Rightarrow> Inr (Some builds))"

definition commit_sha :: "string option field \<Rightarrow> py_error + string" where
  "commit_sha c =
     (case c of
        Missing \<Rightarrow> Inr []
      | Null \<Rightarrow> Inl AttributeError
      | Present None \<Rightarrow> Inr []
      | Present (Some s) \<Rightarrow> Inr s)"

type_synonym branch_row = "int \<times> string \<times> string \<times> string \<times> string option"

text \<open>
  The inner loop over the builds of a branch: the dictionary of the first build whose
  state is \<open>failed\<close>, \<open>passed\<close> or \<open>errored\<close> (the loop breaks there), \<open>None\<close> when the
  loop ends without one, or the exception raised on the way.
\<close>

fun travis_scan :: "string \<Rightarrow> branch_row \<Rightarrow> travis_build list \<Rightarrow> py_error + outcome option" where
  "travis_scan pw_instance row [] = Inr None"
| "travis_scan pw_instance (sid, project, url, branchname, travis_repo) (build # builds) =
     (case tb_state build of
        None \<Rightarrow> Inl KeyError
      | Some state \<Rightarrow>
          if state \<in> set [''created'', ''canceled'']
          then travis_scan pw_instance (sid, project, url, branchname, travis_repo) builds
          else if state \<in> set [''failed'', ''passed'', ''errored''] then
            (case tb_id build of None \<Rightarrow> Inl KeyError | Some i \<Rightarrow>
            (case commit_sha (tb_commit build) of Inl e \<Rightarrow> Inl e | Inr s \<Rightarrow>
               Inr (Some
                 \<lparr>o_pw_instance = pw_instance, o_series_id = sid, o_sha = s,
                  o_result = (if state = ''errored'' then ''failed'' else state),
                  o_build_url = ''https://travis-ci.com/'' @ str_opt travis_repo
                                  @ ''/builds/'' @ str_int i,
                  o_patch_name = url, o_repo_name = travis_repo,
                  o_test_name = [], o_patch_id = None\<rparr>)))
          else travis_scan pw_instance (sid, project, url, branchname, travis_repo) builds)"

definition travis_step :: "travis_backend \<Rightarrow> string \<Rightarrow> string option \<Rightarrow> (unit, branch_row) step" where
  "travis_step backend pw_instance pw_project u d row =
     (case row of (sid, project, url, branchname, travis_repo) \<Rightarrow>
        if project_filtered pw_project project then ([], u, d, None)
        else
          (case get_builds_for_branch backend travis_repo branchname of
             Inl e \<Rightarrow> ([], u, d, if e = RequestException then None else Some e)
           | Inr None \<Rightarrow> ([], u, d, Some TypeError)
           | Inr (Some builds) \<Rightarrow>
               (case travis_scan pw_instance row builds of
                  Inl e \<Rightarrow> ([], u, d, if e = RequestException then None else Some e)
                | Inr None \<Rightarrow> ([], u, d, None)
                | Inr (Some out) \<Rightarrow> ([out], u, clear_series_branch d pw_instance sid, None))))"

definition travis_get_build_results ::
  "travis_backend \<Rightarrow> db \<Rightarrow> string \<Rightarrow> string option \<Rightarrow> run_result" where
  "travis_get_build_results backend d pw_instance pw_project =
     for_each (travis_step backend pw_instance pw_project) () d
       (get_active_branches d pw_instance)"

section \<open>CirrusProvider\<close>

record cirrus_task =
  task_status :: "string option"

record cirrus_node =
  node_id :: "string option"
  node_status :: "string option"
  node_tasks :: "cirrus_task list field"

record cirrus_edge =
  edge_node :: "cirrus_node option"

text \<open>
  The reply of the GraphQL query, along the path \<open>data\<close>, \<open>ownerRepository\<close>, \<open>builds\<close>,
  \<open>edges\<close>. Each \<open>.get(key, {})\<close> gives an empty object for a missing key and \<open>None\<close> for
  \<open>null\<close>, on which the next \<open>.get\<close> raises \<open>AttributeError\<close>; a \<open>null\<close> under \<open>edges\<close>
  reaches the \<open>for\<close> statement, which raises \<open>TypeError\<close>.
\<close>

type_synonym cirrus_json = "cirrus_edge list field field field field"

definition cirrus_edges :: "cirrus_json \<Rightarrow> py_error + cirrus_edge list" where
  "cirrus_edges j =
     (case j of Missing \<Rightarrow> Inr [] | Null \<Rightarrow> Inl AttributeError | Present owner_repository \<Rightarrow>
     (case owner_repository of Missing \<Rightarrow> Inr [] | Null \<Rightarrow> Inl AttributeError | Present builds \<Rightarrow>
     (case builds of Missing \<Rightarrow> Inr [] | Null \<Rightarrow> Inl AttributeError | Present edges \<Rightarrow>
     (case edges of Missing \<Rightarrow> Inr [] | Null \<Rightarrow> Inl TypeError | Present es \<Rightarrow> Inr es))))"

text \<open>The backend maps the variables \<open>owner\<close>, \<open>name\<close> and \<open>branch\<close> of the query to the reply.\<close>

type_synonym cirrus_backend = "string \<Rightarrow> string \<Rightarrow> string \<Rightarrow> py_error + cirrus_json"

text \<open>\<open>str.split('/')\<close>.\<close>

fun split_on :: "char \<Rightarrow> string \<Rightarrow> string list" where
  "split_on c [] = [[]]"
| "split_on c (x # xs) =
     (if x = c then [] # split_on c xs
      else (case split_on c xs of [] \<Rightarrow> [[x]] | p # ps \<Rightarrow> (x # p) # ps))"

text \<open>
  \<open>[task for task in node.get('tasks', []) if task['status'] == 'FAILED']\<close>.
\<close>

definition failed_tasks :: "cirrus_node \<Rightarrow> py_error + cirrus_task list" where
  "failed_tasks node =
     (case node_tasks node of
        Missing \<Rightarrow> Inr []
      | Null \<Rightarrow> Inl TypeError
      | Present tasks \<Rightarrow>
          if list_ex (\<lambda>t. task_status t = None) tasks then Inl KeyError
          else Inr (filter (\<lambda>t. task_status t = Some ''FAILED'') tasks))"

fun cirrus_scan :: "string \<Rightarrow> build_row \<Rightarrow> cirrus_edge list \<Rightarrow> py_error + outcome option" where
  "cirrus_scan pw_instance build [] = Inr None"
| "cirrus_scan pw_instance build (edge # edges) =
     (case edge_node edge of None \<Rightarrow> Inl KeyError | Some node \<Rightarrow>
     (case node_status node of None \<Rightarrow> Inl KeyError | Some status \<Rightarrow>
        if status = ''COMPLETED'' then
          (case failed_tasks node of Inl e \<Rightarrow> Inl e | Inr failed \<Rightarrow>
          (case node_id node of None \<Rightarrow> Inl KeyError | Some i \<Rightarrow>
             Inr (Some
               \<lparr>o_pw_instance = pw_instance, o_series_id = gb_series_id build,
                o_sha = sha build,
                o_result = (if failed \<noteq> [] then ''failed'' else ''passed''),
                o_build_url = ''https://cirrus-ci.com/build/'' @ i,
                o_patch_name = patch_name build, o_repo_name = Some (repo_name build),
                o_test_name = ''cirrus-ci'', o_patch_id = Some (patch_id build)\<rparr>)))
        else cirrus_scan pw_instance build edges))"

definition cirrus_step :: "cirrus_backend \<Rightarrow> string \<Rightarrow> string option \<Rightarrow> (unit, build_row) step" where
  "cirrus_step backend pw_instance pw_project u d build =
     (if project_filtered pw_project (patchwork_project build) then ([], u, d, None)
      else
        (case split_on CHR ''/'' (repo_name build) of
           [owner, name] \<Rightarrow>
             (case backend owner name (''series_'' @ str_int (gb_series_id build)) of
                Inl e \<Rightarrow> ([], u, d, if e = RequestException then None else Some e)
              | Inr j \<Rightarrow>
                  (case cirrus_edges j of Inl e \<Rightarrow> ([], u, d, Some e) | Inr edges \<Rightarrow>
                  (case cirrus_scan pw_instance build edges of
                     Inl e \<Rightarrow> ([], u, d, Some e)
                   | Inr None \<Rightarrow> ([], u, d, None)
                   | Inr (Some out) \<Rightarrow>
                       (case set_build_synced d pw_instance (patch_id build)
                               (sync_column ''cirrus'') of
                          Inl e \<Rightarrow> ([out], u, d, Some e)
                        | Inr d' \<Rightarrow> ([out], u, d', None)))))
         | _ \<Rightarrow> ([], u, d, None)))"

definition cirrus_get_build_results ::
  "cirrus_backend \<Rightarrow> db \<Rightarrow> string \<Rightarrow> string option \<Rightarrow> run_result" where
  "cirrus_get_build_results backend d pw_instance pw_project =
     (case get_unsynced_builds d pw_instance (sync_column ''cirrus'') of
        Inl e \<Rightarrow> \<lparr>yielded = [], store = d, raised = Some e\<rparr>
      | Inr unsynced_builds \<Rightarrow>
          for_each (cirrus_step backend pw_instance pw_project) () d unsynced_builds)"

section \<open>DummyProvider\<close>

definition dummy_step :: "string \<Rightarrow> string option \<Rightarrow> (unit, build_row) step" where
  "dummy_step pw_instance pw_project u d build =
     (if project_filtered pw_project (patchwork_project build) then ([], u, d, None)
      else
        (let out = \<lparr>o_pw_instance = pw_instance, o_series_id = gb_series_id build,
                    o_sha = sha build, o_result = ''passed'',
                    o_build_url = ''https://example.com/dummy-build'',
                    o_patch_name = patch_name build, o_repo_name = Some (repo_name build),
                    o_test_name = ''dummy-test'', o_patch_id = Some (patch_id build)\<rparr>
         in case set_build_synced d pw_instance (patch_id build) (sync_column ''dummy'') of
              Inl e \<Rightarrow> ([out], u, d, Some e)
            | Inr d' \<Rightarrow> ([out], u, d', None)))"

definition dummy_get_build_results :: "db \<Rightarrow> string \<Rightarrow> string option \<Rightarrow> run_result" where
  "dummy_get_build_results d pw_instance pw_project =
     (case get_unsynced_builds d pw_instance (sync_column ''dummy'') of
        Inl e \<Rightarrow> \<lparr>yielded = [], store = d, raised = Some e\<rparr>
      | Inr unsynced_builds \<Rightarrow>
          for_each (dummy_step pw_instance pw_project) () d unsynced_builds)"

section \<open>The four providers behind one call\<close>

text \<open>
  \<open>create_provider\<close> builds one of four classes; the GitHub one carries its \<open>api_base\<close>.
  Each class has its own backend; a call of \<open>get_build_results\<close> is given all three and
  uses its own.
\<close>

datatype provider =
  GitHubActionsProvider string | TravisProvider | CirrusProvider | DummyProvider


record backends =
  github_backend :: gh_backend
  travis_api :: travis_backend
  cirrus_api :: cirrus_backend

fun get_build_results ::
  "provider \<Rightarrow> backends \<Rightarrow> db \<Rightarrow> string \<Rightarrow> string option \<Rightarrow> run_result" where
  "get_build_results (GitHubActionsProvider api_base) bk d pw_instance pw_project =
     github_get_build_results api_base (github_backend bk) d pw_instance pw_project"
| "get_build_results TravisProvider bk d pw_instance pw_project =
     travis_get_build_results (travis_api bk) d pw_instance pw_project"
| "get_build_results CirrusProvider bk d pw_instance pw_project =
     cirrus_get_build_results (cirrus_api bk) d pw_instance pw_project"
| "get_build_results DummyProvider bk d pw_instance pw_project =
     dummy_get_build_results d pw_instance pw_project"

section \<open>Notions used in the statements\<close>





subsection \<open>Concrete inputs\<close>

definition empty_db :: db where
  "empty_db = \<lparr>series = [], git_builds = []\<rparr>"

definition detail_received_all :: "int \<Rightarrow> py_error + series_data" where
  "detail_received_all sid =
     Inr \<lparr>sd_url = Some ''http://localhost:8000/api/series/1000/'',
          sd_submitter_name = Some ''Test User'',
          sd_submitter_email = Some ''test@example.com'',
          sd_received_all = Some True\<rparr>"

definition build_100001 :: build_row where
  "build_100001 =
     \<lparr>gb_series_id = 1000, patch_id = 100001,
      patch_url = ''http://localhost:8000/api/patches/100001/'',
      patch_name = ''[PATCH 1/3] Test patch 1'', sha = ''abc1001001'',
      patchwork_instance = ''http://localhost:8000'', patchwork_project = ''testproject'',
      repo_name = ''owner/repo'', gap_sync = 0, obs_sync = 0, cirrus_sync = 0\<rparr>"

definition one_build_db :: db where
  "one_build_db = \<lparr>series = [], git_builds = [build_100001]\<rparr>"






definition run_build_in_progress :: gh_run where
  "run_build_in_progress =
     \<lparr>run_name = Some ''Build'', run_started_at = Some ''2024-01-15T10:00:00Z'',
      run_status = Some ''in_progress'', run_conclusion = Some None,
      run_html_url = Some ''https://github.com/owner/repo/actions/runs/1''\<rparr>"

definition no_travis :: travis_backend where
  "no_travis url branch = Inl RequestException"

definition no_cirrus :: cirrus_backend where
  "no_cirrus owner name branch = Inl RequestException"

definition github_replies :: "gh_run list \<Rightarrow> backends" where
  "github_replies runs =
     \<lparr>github_backend = (\<lambda>api_url branch. Inr (Some runs)),
      travis_api = no_travis, cirrus_api = no_cirrus\<rparr>"









section \<open>Properties of the store\<close>

lemma series_add_series:
  "series (add_series d instance project sid url n e c) = series d @
     [\<lparr>series_id = sid, series_project = project, series_url = url,
       series_submitter = n, series_email = e,
       series_submitted = 0, series_completed = (if c then 1 else 0),
       series_instance = instance, series_downloaded = 0,
       series_branch = None, series_repo = None, series_sha = None\<rparr>]"
  by (simp add: add_series_def)

lemma series_exists_add_series:
  "series_exists (add_series d instance project sid url n e c) instance sid"
  by (simp add: series_exists_def series_add_series)

lemma uncompleted_add_series:
  "get_uncompleted_series (add_series d instance project sid url n e c) inst p =
     get_uncompleted_series d inst p @
       (if instance = inst \<and> project = p \<and> \<not> c then [(sid, url, n, e)] else [])"
  by (simp add: get_uncompleted_series_def series_add_series)


lemma map_unchanged: "(\<And>x. x \<in> set xs \<Longrightarrow> f x = x) \<Longrightarrow> map f xs = xs"
  by (induction xs) auto

text \<open>
  C10. A second \<open>add_series\<close> with an \<open>(instance, series_id)\<close> that the table already
  holds neither fails nor replaces: the table grows by one more row, the rows it had are
  as they were, \<open>series_exists\<close> is true, and \<open>get_uncompleted_series\<close> returns the series
  once for each of the two rows inserted (each row under its own project and only when
  it was inserted as not completed).
\<close>

theorem add_series_twice_keeps_both_rows:
  "series_exists
     (add_series (add_series d instance p1 sid u1 n1 e1 c1) instance p2 sid u2 n2 e2 c2)
     instance sid
   \<and> length (series
        (add_series (add_series d instance p1 sid u1 n1 e1 c1) instance p2 sid u2 n2 e2 c2))
       = length (series d) + 2
   \<and> take (length (series d)) (series
        (add_series (add_series d instance p1 sid u1 n1 e1 c1) instance p2 sid u2 n2 e2 c2))
       = series d
   \<and> get_uncompleted_series
        (add_series (add_series d instance p1 sid u1 n1 e1 c1) instance p2 sid u2 n2 e2 c2)
        instance project
       = get_uncompleted_series d instance project
           @ (if p1 = project \<and> \<not> c1 then [(sid, u1, n1, e1)] else [])
           @ (if p2 = project \<and> \<not> c2 then [(sid, u2, n2, e2)] else [])"
  by (simp add: series_exists_add_series uncompleted_add_series series_add_series)

theorem add_series_twice_witness:
  "get_uncompleted_series
     (add_series (add_series empty_db ''pw'' ''proj'' 1000 ''u'' ''n'' ''e'' False)
        ''pw'' ''proj'' 1000 ''u'' ''n'' ''e'' False)
     ''pw'' ''proj''
   = [(1000, ''u'', ''n'', ''e''), (1000, ''u'', ''n'', ''e'')]"
  using add_series_twice_keeps_both_rows
    [of empty_db "''pw''" "''proj''" 1000 "''u''" "''n''" "''e''" False
        "''proj''" "''u''" "''n''" "''e''" False "''proj''"]
  by (simp add: empty_db_def get_uncompleted_series_def)







text \<open>
  C6, as the code has it. When the discovery pass reads the detail of a series whose
  \<open>(instance, series_id)\<close> the table does not hold yet, it appends one row with
  \<open>submitted = 0\<close> and \<open>downloaded = 0\<close>, and with \<open>completed = 1\<close> when the detail says
  \<open>received_all\<close>, \<open>completed = 0\<close> when it does not.
\<close>

theorem new_series_flags:
  assumes "\<not> series_exists d instance sid"
    and "get_series sid = Inr sd"
    and "sd_url sd = Some url" and "sd_submitter_name sd = Some n"
    and "sd_submitter_email sd = Some e"
  shows "\<exists>r. check_new_series_event get_series instance project d sid
               = (d\<lparr>series := series d @ [r]\<rparr>, None)
           \<and> series_id r = sid \<and> series_instance r = instance
           \<and> series_submitted r = 0 \<and> series_downloaded r = 0
           \<and> series_completed r = (if sd_received_all sd = Some True then 1 else 0)"
  using assms
  by (cases "sd_received_all sd")
     (auto simp: check_new_series_event_def emit_series_def add_series_def)

theorem new_series_flags_witness:
  "\<exists>r. check_new_series_event detail_received_all ''http://localhost:8000'' ''testproject''
          empty_db 1000
        = (empty_db\<lparr>series := series empty_db @ [r]\<rparr>, None)
      \<and> series_id r = 1000 \<and> series_instance r = ''http://localhost:8000''
      \<and> series_submitted r = 0 \<and> series_downloaded r = 0
      \<and> series_completed r = 1"
proof -
  have h: "\<not> series_exists empty_db ''http://localhost:8000'' 1000"
    by (simp add: series_exists_def empty_db_def)
  have g: "detail_received_all 1000 =
      Inr \<lparr>sd_url = Some ''http://localhost:8000/api/series/1000/'',
           sd_submitter_name = Some ''Test User'',
           sd_submitter_email = Some ''test@example.com'',
           sd_received_all = Some True\<rparr>"
    by (simp add: detail_received_all_def)
  show ?thesis
    using h g
      new_series_flags [of empty_db "''http://localhost:8000''" 1000 detail_received_all
        "\<lparr>sd_url = Some ''http://localhost:8000/api/series/1000/'',
          sd_submitter_name = Some ''Test User'',
          sd_submitter_email = Some ''test@example.com'',
          sd_received_all = Some True\<rparr>"
        "''http://localhost:8000/api/series/1000/''" "''Test User''" "''test@example.com''"
        "''testproject''"]
    by simp
qed

text \<open>
  The claim as the specification words it fails: for a new series whose detail says
  \<open>received_all\<close>, the row inserted has \<open>completed = 1\<close>.
\<close>

theorem received_all_series_counterexample:
  "map series_completed
     (series (fst (check_new_series detail_received_all ''http://localhost:8000''
                     ''testproject'' empty_db [1000]))) = [1]"
  by (simp add: check_new_series_event_def emit_series_def add_series_def series_exists_def
        detail_received_all_def empty_db_def)



text \<open>
  C8. \<open>set_build_synced\<close>, when SQLite accepts the column, changes no row of \<open>series\<close>
  and neither the number nor the order of the rows of \<open>git_builds\<close>. In a row of the given
  instance and patch the named flag is 1 afterwards, the other sync flags and the eight
  other columns are as before; every other row is unchanged.
\<close>

lemma set_sync_flag_frame:
  "ci_type \<in> set sync_columns \<Longrightarrow>
   sync_flag ci_type (set_sync_flag ci_type r) = 1
   \<and> (\<forall>c \<in> set sync_columns. c \<noteq> ci_type \<longrightarrow> sync_flag c (set_sync_flag ci_type r) = sync_flag c r)
   \<and> gb_series_id (set_sync_flag ci_type r) = gb_series_id r
   \<and> patch_id (set_sync_flag ci_type r) = patch_id r
   \<and> patch_url (set_sync_flag ci_type r) = patch_url r
   \<and> patch_name (set_sync_flag ci_type r) = patch_name r
   \<and> sha (set_sync_flag ci_type r) = sha r
   \<and> patchwork_instance (set_sync_flag ci_type r) = patchwork_instance r
   \<and> patchwork_project (set_sync_flag ci_type r) = patchwork_project r
   \<and> repo_name (set_sync_flag ci_type r) = repo_name r"
  by (auto simp: sync_columns_def sync_flag_def set_sync_flag_def)

lemma set_build_synced_Inr:
  "set_build_synced d instance pid ci_type = Inr d' \<longleftrightarrow>
     ci_type \<in> set sync_columns
     \<and> d' = d\<lparr>git_builds :=
             map (\<lambda>r. if patchwork_instance r = instance \<and> patch_id r = pid
                       then set_sync_flag ci_type r else r) (git_builds d)\<rparr>"
  by (auto simp: set_build_synced_def)

theorem set_build_synced_frame:
  assumes "set_build_synced d instance pid ci_type = Inr d'"
    and "i < length (git_builds d)"
    and "r = git_builds d ! i" and "r' = git_builds d' ! i"
  shows "series d' = series d \<and> length (git_builds d') = length (git_builds d)
     \<and> (if patchwork_instance r = instance \<and> patch_id r = pid
        then sync_flag ci_type r' = 1
           \<and> (\<forall>c \<in> set sync_columns. c \<noteq> ci_type \<longrightarrow> sync_flag c r' = sync_flag c r)
           \<and> gb_series_id r' = gb_series_id r \<and> patch_id r' = patch_id r
           \<and> patch_url r' = patch_url r \<and> patch_name r' = patch_name r
           \<and> sha r' = sha r \<and> patchwork_instance r' = patchwork_instance r
           \<and> patchwork_project r' = patchwork_project r \<and> repo_name r' = repo_name r
        else r' = r)"
proof -
  from assms(1) have col: "ci_type \<in> set sync_columns"
    and d': "d' = d\<lparr>git_builds :=
             map (\<lambda>r. if patchwork_instance r = instance \<and> patch_id r = pid
                       then set_sync_flag ci_type r else r) (git_builds d)\<rparr>"
    by (simp_all add: set_build_synced_Inr)
  show ?thesis
    using set_sync_flag_frame [OF col, of r] assms(2,3,4)
    by (simp add: d')
qed

theorem set_build_synced_frame_witness:
  "set_build_synced one_build_db ''http://localhost:8000'' 100001 ''gap_sync''
     = Inr \<lparr>series = [], git_builds = [build_100001\<lparr>gap_sync := 1\<rparr>]\<rparr>
   \<and> sync_flag ''gap_sync'' (build_100001\<lparr>gap_sync := 1\<rparr>) = 1
   \<and> sync_flag ''obs_sync'' (build_100001\<lparr>gap_sync := 1\<rparr>) = 0
   \<and> sync_flag ''cirrus_sync'' (build_100001\<lparr>gap_sync := 1\<rparr>) = 0
   \<and> sha (build_100001\<lparr>gap_sync := 1\<rparr>) = sha build_100001"
proof -
  have h: "set_build_synced one_build_db ''http://localhost:8000'' 100001 ''gap_sync''
     = Inr \<lparr>series = [], git_builds = [build_100001\<lparr>gap_sync := 1\<rparr>]\<rparr>"
    by (simp add: set_build_synced_def one_build_db_def build_100001_def sync_columns_def
          set_sync_flag_def)
  have i: "0 < length (git_builds one_build_db)"
    by (simp add: one_build_db_def)
  show ?thesis
    using h set_build_synced_frame [OF h i, of build_100001 "build_100001\<lparr>gap_sync := 1\<rparr>"]
    by (simp add: one_build_db_def sync_columns_def)
       (simp add: build_100001_def sync_flag_def)
qed

text \<open>
  C9. No sequence of store operations takes a series row away or turns its \<open>completed\<close>
  from 1 to another value: a row that is completed is, after any operations, still at
  its place, of the same series and instance, and completed. \<open>set_series_completed\<close> and
  \<open>set_series_submitted\<close> are idempotent, and on a store where the flag of every row of
  the series is already 1 they change nothing.
\<close>

lemma apply_op_completed:
  assumes "i < length (series d)" "series_completed (series d ! i) = 1"
  shows "i < length (series (apply_op d op))
     \<and> series_completed (series (apply_op d op) ! i) = 1
     \<and> series_id (series (apply_op d op) ! i) = series_id (series d ! i)
     \<and> series_instance (series (apply_op d op) ! i) = series_instance (series d ! i)"
  using assms
  by (cases op)
     (auto simp: add_series_def set_series_submitted_def set_series_completed_def
        set_series_branch_def clear_series_branch_def insert_build_def set_build_synced_def
        nth_append)

lemma apply_ops_completed:
  assumes "i < length (series d)" "series_completed (series d ! i) = 1"
  shows "i < length (series (apply_ops d ops))
     \<and> series_completed (series (apply_ops d ops) ! i) = 1
     \<and> series_id (series (apply_ops d ops) ! i) = series_id (series d ! i)
     \<and> series_instance (series (apply_ops d ops) ! i) = series_instance (series d ! i)"
  using assms
proof (induction ops arbitrary: d)
  case Nil
  then show ?case by simp
next
  case (Cons op ops)
  from apply_op_completed [OF Cons.prems, of op] Cons.IH [of "apply_op d op"]
  show ?case by simp
qed

lemma set_series_completed_twice:
  "set_series_completed (set_series_completed d instance sid) instance sid
     = set_series_completed d instance sid"
  by (simp add: set_series_completed_def comp_def cong: map_cong)

lemma set_series_submitted_twice:
  "set_series_submitted (set_series_submitted d instance sid) instance sid
     = set_series_submitted d instance sid"
  by (simp add: set_series_submitted_def comp_def cong: map_cong)

lemma set_series_completed_noop:
  assumes "\<forall>r \<in> set (series d). series_id r = sid \<and> series_instance r = instance
            \<longrightarrow> series_completed r = 1"
  shows "set_series_completed d instance sid = d"
proof -
  have "map (\<lambda>r. if series_id r = sid \<and> series_instance r = instance
                  then r\<lparr>series_completed := 1\<rparr> else r) (series d) = series d"
    using assms by (intro map_unchanged) auto
  then show ?thesis by (simp add: set_series_completed_def)
qed

lemma set_series_submitted_noop:
  assumes "\<forall>r \<in> set (series d). series_id r = sid \<and> series_instance r = instance
            \<longrightarrow> series_submitted r = 1"
  shows "set_series_submitted d instance sid = d"
proof -
  have "map (\<lambda>r. if series_id r = sid \<and> series_instance r = instance
                  then r\<lparr>series_submitted := 1\<rparr> else r) (series d) = series d"
    using assms by (intro map_unchanged) auto
  then show ?thesis by (simp add: set_series_submitted_def)
qed

theorem completed_is_monotone_and_idempotent:
  "(i < length (series d) \<and> series_completed (series d ! i) = 1
      \<longrightarrow> i < length (series (apply_ops d ops))
        \<and> series_completed (series (apply_ops d ops) ! i) = 1
        \<and> series_id (series (apply_ops d ops) ! i) = series_id (series d ! i)
        \<and> series_instance (series (apply_ops d ops) ! i) = series_instance (series d ! i))
   \<and> set_series_completed (set_series_completed d instance sid) instance sid
       = set_series_completed d instance sid
   \<and> set_series_submitted (set_series_submitted d instance sid) instance sid
       = set_series_submitted d instance sid
   \<and> ((\<forall>r \<in> set (series d). series_id r = sid \<and> series_instance r = instance
            \<longrightarrow> series_completed r = 1)
       \<longrightarrow> set_series_completed d instance sid = d)
   \<and> ((\<forall>r \<in> set (series d). series_id r = sid \<and> series_instance r = instance
            \<longrightarrow> series_submitted r = 1)
       \<longrightarrow> set_series_submitted d instance sid = d)"
  using apply_ops_completed [of i d ops] set_series_completed_twice [of d "instance" sid]
    set_series_submitted_twice [of d "instance" sid]
    set_series_completed_noop [of d sid "instance"]
    set_series_submitted_noop [of d sid "instance"]
  by blast

theorem completed_is_monotone_witness:
  "series_completed
     (series (apply_ops (add_series empty_db ''pw'' ''proj'' 1000 ''u'' ''n'' ''e'' True)
        [AddSeries ''pw'' ''proj'' 1000 ''u'' ''n'' ''e'' False,
         SetSeriesBranch ''pw'' 1000 ''owner/repo'' ''series_1000'',
         ClearSeriesBranch ''pw'' 1000,
         SetSeriesSubmitted ''pw'' 1000]) ! 0) = 1
   \<and> set_series_completed (add_series empty_db ''pw'' ''proj'' 1000 ''u'' ''n'' ''e'' True)
        ''pw'' 1000
       = add_series empty_db ''pw'' ''proj'' 1000 ''u'' ''n'' ''e'' True"
  using completed_is_monotone_and_idempotent
    [of 0 "add_series empty_db ''pw'' ''proj'' 1000 ''u'' ''n'' ''e'' True"
        "[AddSeries ''pw'' ''proj'' 1000 ''u'' ''n'' ''e'' False,
         SetSeriesBranch ''pw'' 1000 ''owner/repo'' ''series_1000'',
         ClearSeriesBranch ''pw'' 1000,
         SetSeriesSubmitted ''pw'' 1000]" "''pw''" 1000]
  by (simp add: add_series_def empty_db_def)

section \<open>Properties of the providers\<close>

subsection \<open>The loop\<close>






































text \<open>
  C2, on the GitHub provider. The backend reports one run of the branch, still in
  progress. The call yields nothing, and the build's \<open>gap_sync\<close> is 1 afterwards: the
  build has left the queue of \<open>get_unsynced_builds\<close> without a result.
\<close>

theorem in_progress_run_is_marked_synced:
  "get_build_results (GitHubActionsProvider ''https://api.github.com'')
     (github_replies [run_build_in_progress]) one_build_db ''http://localhost:8000'' None
     = \<lparr>yielded = [],
        store = \<lparr>series = [], git_builds = [build_100001\<lparr>gap_sync := 1\<rparr>]\<rparr>,
        raised = None\<rparr>
   \<and> get_unsynced_builds \<lparr>series = [], git_builds = [build_100001\<lparr>gap_sync := 1\<rparr>]\<rparr>
        ''http://localhost:8000'' ''gap_sync'' = Inr []"
  by code_simp







end
